theory Spec2Isabelle
  imports Complex_Main
begin

section \<open>Strings\<close>

text \<open>
  A JavaScript string is modelled as a \<^typ>\<open>string\<close>, one \<^typ>\<open>char\<close> per code unit, for
  code units below 256.  On that range \<^verbatim>\<open>toLowerCase\<close> moves only \<^verbatim>\<open>A-Z\<close> into the class
  \<^verbatim>\<open>[a-z0-9]\<close> (the other letters it changes are removed by the normalizer anyway), and
  \<^verbatim>\<open>trim\<close> removes the seven white-space characters listed below, so the functions of this
  section agree with the built-ins they stand for wherever the matcher and the evaluator
  use them.  A number is the rational it denotes.  Scores and confidences are computed
  exactly, the scores \<^verbatim>\<open>0.3\<close>, \<^verbatim>\<open>0.35\<close>, ... being the fractions they denote.  The
  coverage percentage is computed as the source does, in double precision: each division
  and multiplication is rounded to the nearest double (section on the evaluator).
\<close>

definition upperCaseLetters :: string where
  "upperCaseLetters = ''ABCDEFGHIJKLMNOPQRSTUVWXYZ''"

definition lowerCaseLetters :: string where
  "lowerCaseLetters = ''abcdefghijklmnopqrstuvwxyz''"

definition decimalDigits :: string where
  "decimalDigits = ''0123456789''"

definition toLowerCaseChar :: "char \<Rightarrow> char" where
  "toLowerCaseChar c =
     (case map_of (zip upperCaseLetters lowerCaseLetters) c of Some d \<Rightarrow> d | None \<Rightarrow> c)"

definition toLowerCase :: "string \<Rightarrow> string" where
  "toLowerCase v = map toLowerCaseChar v"

text \<open>The character class \<^verbatim>\<open>[a-z0-9]\<close>.\<close>

definition isLowerAlnum :: "char \<Rightarrow> bool" where
  "isLowerAlnum c = List.member (lowerCaseLetters @ decimalDigits) c"

text \<open>\<^verbatim>\<open>s.startsWith(t)\<close> and \<^verbatim>\<open>s.includes(t)\<close>.\<close>

fun startsWith :: "string \<Rightarrow> string \<Rightarrow> bool" where
  "startsWith s [] = True"
| "startsWith [] (d # t) = False"
| "startsWith (c # s) (d # t) = (c = d \<and> startsWith s t)"

fun includesStr :: "string \<Rightarrow> string \<Rightarrow> bool" where
  "includesStr [] t = (t = [])"
| "includesStr (c # s) t = (startsWith (c # s) t \<or> includesStr s t)"

text \<open>The white space that \<^verbatim>\<open>trim\<close> removes: TAB, LF, VT, FF, CR, space and NBSP.\<close>

definition isWhiteSpace :: "char \<Rightarrow> bool" where
  "isWhiteSpace c = List.member [CHR 0x09, CHR 0x0A, CHR 0x0B, CHR 0x0C, CHR 0x0D, CHR 0x20, CHR 0xA0] c"

definition trim :: "string \<Rightarrow> string" where
  "trim s = rev (dropWhile isWhiteSpace (rev (dropWhile isWhiteSpace s)))"

text \<open>Decimal rendering of a number inside a template literal.\<close>

definition digitChar :: "nat \<Rightarrow> char" where
  "digitChar d = decimalDigits ! d"

fun showNat :: "nat \<Rightarrow> string" where
  "showNat n = (if n < 10 then [digitChar n] else showNat (n div 10) @ [digitChar (n mod 10)])"

definition showInt :: "int \<Rightarrow> string" where
  "showInt i = (if i < 0 then CHR ''-'' # showNat (nat (- i)) else showNat (nat i))"

section \<open>Data model (schemaDiscovery.ts)\<close>

record TableColumn =
  tableName :: string
  columnName :: string
  dataType :: string
  isNullable :: bool
  isPrimaryKey :: bool
  isForeignKey :: bool
  referencedTable :: "string option"
  referencedColumn :: "string option"

record TableRelationship =
  fromTable :: string
  fromColumn :: string
  toTable :: string
  toColumn :: string

record DatabaseSchema =
  tables :: "string list"
  columns :: "TableColumn list"
  relationships :: "TableRelationship list"

record ColumnMatch =
  column :: TableColumn
  score :: rat

section \<open>Identifier normalizer and column matcher\<close>

definition MATCH_THRESHOLD :: rat where
  "MATCH_THRESHOLD = 35 / 100"

definition normalizeIdentifier :: "string \<Rightarrow> string" where
  "normalizeIdentifier v = filter isLowerAlnum (toLowerCase v)"

definition scoreColumnMatch :: "string \<Rightarrow> TableColumn \<Rightarrow> rat" where
  "scoreColumnMatch normalizedField col =
     (let normalizedColumn = normalizeIdentifier (columnName col);
          s0 = (if normalizedColumn = normalizedField then 1
                else if includesStr normalizedColumn normalizedField
                  then of_nat (length normalizedField) / of_nat (length normalizedColumn)
                else if includesStr normalizedField normalizedColumn
                  then of_nat (length normalizedColumn) / of_nat (length normalizedField) * (8 / 10)
                else 0);
          s1 = (if includesStr normalizedField normalizedColumn \<or> includesStr normalizedColumn normalizedField
                then s0 + 3 / 10 else s0);
          s2 = (if includesStr normalizedField ''qty'' \<and> includesStr normalizedColumn ''quantity''
                then s1 + 2 / 10 else s1);
          s3 = (if includesStr normalizedField ''uom'' \<and> includesStr normalizedColumn ''unitofmeasure''
                then s2 + 2 / 10 else s2);
          s4 = (if includesStr normalizedField ''onhand'' \<and> includesStr normalizedColumn ''onhand''
                then s3 + 3 / 10 else s3);
          s5 = (if includesStr normalizedField ''revenue'' \<and> includesStr normalizedColumn ''amount''
                then s4 + 15 / 100 else s4);
          s6 = (if includesStr normalizedField ''customer'' \<and> includesStr normalizedColumn ''customer''
                then s5 + 15 / 100 else s5);
          s7 = (if includesStr normalizedField ''sales'' \<and> includesStr normalizedColumn ''sales''
                then s6 + 15 / 100 else s6)
      in s7)"

text \<open>
  The loop of \<^verbatim>\<open>getTopColumnMatches\<close> pushes a column only when its score is positive;
  \<^verbatim>\<open>sort\<close> with the comparator \<^verbatim>\<open>b.score - a.score\<close> is a stable sort by descending
  score, and \<^verbatim>\<open>slice(0, limit)\<close> keeps the first \<open>limit\<close> entries.
\<close>

definition scoredColumns :: "string \<Rightarrow> DatabaseSchema \<Rightarrow> ColumnMatch list" where
  "scoredColumns normalizedField schema =
     filter (\<lambda>m. 0 < score m)
       (map (\<lambda>col. \<lparr>column = col, score = scoreColumnMatch normalizedField col\<rparr>) (columns schema))"

definition getTopColumnMatches :: "string \<Rightarrow> DatabaseSchema \<Rightarrow> nat \<Rightarrow> ColumnMatch list" where
  "getTopColumnMatches fieldName schema limit =
     (let normalizedField = normalizeIdentifier fieldName;
          scored = scoredColumns normalizedField schema
      in take limit (sort_key (\<lambda>m. - score m) scored))"

definition findColumnMatch :: "string \<Rightarrow> DatabaseSchema \<Rightarrow> ColumnMatch option" where
  "findColumnMatch fieldName schema =
     (case getTopColumnMatches fieldName schema 1 of
        [] \<Rightarrow> None
      | best # _ \<Rightarrow> if MATCH_THRESHOLD \<le> score best then Some best else None)"

section \<open>Coverage evaluator (evaluateFieldCoverage)\<close>

text \<open>
  The entries of the report.  The source calls the fields of a matched entry \<^verbatim>\<open>name\<close>,
  \<^verbatim>\<open>column\<close>, \<^verbatim>\<open>confidence\<close> and those of a missing entry \<^verbatim>\<open>name\<close>, \<^verbatim>\<open>suggestions\<close>.
\<close>

record MatchedField =
  matched_name :: string
  matched_column :: string
  confidence :: rat

record MissingField =
  missing_name :: string
  suggestions :: "string list"

record CoverageReport =
  coveragePercent :: int
  matchedFields :: "MatchedField list"
  missingFields :: "MissingField list"

text \<open>
  Double precision.  \<open>toDouble x\<close> is the double nearest to \<open>x\<close>, ties to the even
  significand: with \<open>2 ^ e \<le> \<bar>x\<bar> < 2 ^ (e + 1)\<close>, the doubles around \<open>x\<close> are the multiples of
  \<open>2 ^ (e - 52)\<close>, or of \<open>2 ^ - 1074\<close> in the subnormal range.  The quotient and the product
  of two doubles are \<open>toDouble\<close> of the exact quotient and product.  Overflow to infinity
  is left out: no value here exceeds 100.
\<close>

function bitLength :: "int \<Rightarrow> nat" where
  "bitLength p = (if p \<le> 0 then 0 else Suc (bitLength (p div 2)))"
  by pat_completeness auto
termination
  by (relation "measure nat") auto

definition binaryExponent :: "rat \<Rightarrow> int" where
  "binaryExponent x =
     (case quotient_of x of
        (p, q) \<Rightarrow>
          (let d = int (bitLength p) - int (bitLength q)
           in if 2 powi d \<le> x then d else d - 1))"

definition roundTiesToEven :: "rat \<Rightarrow> int" where
  "roundTiesToEven y =
     (let f = \<lfloor>y\<rfloor>; d = y - of_int f
      in if d < 1 / 2 then f else if 1 / 2 < d then f + 1 else if even f then f else f + 1)"

definition toDouble :: "rat \<Rightarrow> rat" where
  "toDouble x =
     (if x = 0 then 0
      else
        (let a = \<bar>x\<bar>;
             k = max (binaryExponent a - 52) (- 1074);
             r = of_int (roundTiesToEven (a / 2 powi k)) * 2 powi k
         in if x < 0 then - r else r))"

text \<open>\<^verbatim>\<open>Math.round(x)\<close> and \<^verbatim>\<open>Number(x.toFixed(1))\<close>: a tie goes up in magnitude for \<^verbatim>\<open>toFixed\<close>.\<close>

definition mathRound :: "rat \<Rightarrow> int" where
  "mathRound x = \<lfloor>x + 1 / 2\<rfloor>"

definition toFixed1 :: "rat \<Rightarrow> rat" where
  "toFixed1 x =
     (if x < 0 then - (of_int \<lfloor>(- x) * 10 + 1 / 2\<rfloor> / 10) else of_int \<lfloor>x * 10 + 1 / 2\<rfloor> / 10)"

text \<open>The template literal \<^verbatim>\<open>`${c.tableName}.${c.columnName}`\<close>.\<close>

definition columnLabel :: "TableColumn \<Rightarrow> string" where
  "columnLabel c = tableName c @ ''.'' @ columnName c"

text \<open>
  \<^verbatim>\<open>Array.from(new Set(xs))\<close>: a set keeps its members in the order of their first
  insertion.
\<close>

definition setAdd :: "string list \<Rightarrow> string \<Rightarrow> string list" where
  "setAdd members x = (if List.member members x then members else members @ [x])"

definition arrayFromSet :: "string list \<Rightarrow> string list" where
  "arrayFromSet xs = foldl setAdd [] xs"

definition uniqueFields :: "string list \<Rightarrow> string list" where
  "uniqueFields fieldNames = arrayFromSet (filter (\<lambda>field. field \<noteq> []) (map trim fieldNames))"

text \<open>
  The body of the \<^verbatim>\<open>forEach\<close> callback, on the three variables it updates:
  \<^verbatim>\<open>matchedCount\<close>, \<^verbatim>\<open>matchedFields\<close> and \<^verbatim>\<open>missingFields\<close>.
\<close>

type_synonym coverage_vars = "nat \<times> MatchedField list \<times> MissingField list"

definition coverageStep :: "DatabaseSchema \<Rightarrow> coverage_vars \<Rightarrow> string \<Rightarrow> coverage_vars" where
  "coverageStep schema vars field =
     (case vars of (matchedCount, matched, missing) \<Rightarrow>
        (let matches = getTopColumnMatches field schema 3;
             miss = \<lparr>missing_name = field,
                     suggestions = map (\<lambda>m. columnLabel (column m)) matches\<rparr>
         in case matches of
              [] \<Rightarrow> (matchedCount, matched, missing @ [miss])
            | best # _ \<Rightarrow>
                if 35 / 100 \<le> score best
                then (matchedCount + 1,
                      matched @ [\<lparr>matched_name = field,
                                  matched_column = columnLabel (column best),
                                  confidence = toFixed1 (score best * 100)\<rparr>],
                      missing)
                else (matchedCount, matched, missing @ [miss])))"

definition emptyReport :: "string list \<Rightarrow> CoverageReport" where
  "emptyReport fieldNames =
     \<lparr>coveragePercent = (if length fieldNames = 0 then 100 else 0),
      matchedFields = [], missingFields = []\<rparr>"

definition evaluateFieldCoverage :: "DatabaseSchema option \<Rightarrow> string list \<Rightarrow> CoverageReport" where
  "evaluateFieldCoverage schemaOpt fieldNames =
     (case schemaOpt of
        None \<Rightarrow> emptyReport fieldNames
      | Some schema \<Rightarrow>
          if length fieldNames = 0 then emptyReport fieldNames
          else
            (let unique = uniqueFields fieldNames in
             case foldl (coverageStep schema) (0, [], []) unique of
               (matchedCount, matched, missing) \<Rightarrow>
                 \<lparr>coveragePercent =
                    (if length unique = 0 then 100
                     else mathRound
                            (toDouble (toDouble (of_nat matchedCount / of_nat (length unique)) * 100))),
                  matchedFields = matched, missingFields = missing\<rparr>))"

section \<open>Schema discovery (discoverDatabaseSchema)\<close>

text \<open>The object literals of the mock schema, written with one constructor.\<close>

definition mkColumn ::
  "string \<Rightarrow> string \<Rightarrow> string \<Rightarrow> bool \<Rightarrow> bool \<Rightarrow> bool \<Rightarrow> string option \<Rightarrow> string option \<Rightarrow> TableColumn"
where
  "mkColumn t c d n pk fk rt rc =
     \<lparr>tableName = t, columnName = c, dataType = d, isNullable = n, isPrimaryKey = pk,
      isForeignKey = fk, referencedTable = rt, referencedColumn = rc\<rparr>"

definition generateMockDatabaseSchema :: DatabaseSchema where
  "generateMockDatabaseSchema =
     \<lparr>tables = [''PurchaseOrders'', ''Locations'', ''Items'', ''Inventory'', ''Transfers'',
                ''Waste'', ''Usage''],
      columns =
        [mkColumn ''PurchaseOrders'' ''OrderId'' ''int'' False True False None None,
         mkColumn ''PurchaseOrders'' ''Date'' ''date'' False False False None None,
         mkColumn ''PurchaseOrders'' ''OrderNumber'' ''nvarchar'' False False False None None,
         mkColumn ''PurchaseOrders'' ''LocationId'' ''int'' False False True (Some ''Locations'') (Some ''LocationId''),
         mkColumn ''PurchaseOrders'' ''ItemId'' ''int'' False False True (Some ''Items'') (Some ''ItemId''),
         mkColumn ''PurchaseOrders'' ''SuggestedQuantity'' ''decimal'' False False False None None,
         mkColumn ''PurchaseOrders'' ''ActualOrderQuantity'' ''decimal'' True False False None None,
         mkColumn ''PurchaseOrders'' ''ConsumptionDays'' ''int'' False False False None None,
         mkColumn ''PurchaseOrders'' ''BufferDays'' ''int'' False False False None None,
         mkColumn ''PurchaseOrders'' ''EstimatedNeed'' ''decimal'' False False False None None,
         mkColumn ''Locations'' ''LocationId'' ''int'' False True False None None,
         mkColumn ''Locations'' ''LocationName'' ''nvarchar'' False False False None None,
         mkColumn ''Items'' ''ItemId'' ''int'' False True False None None,
         mkColumn ''Items'' ''ItemName'' ''nvarchar'' False False False None None,
         mkColumn ''Items'' ''OrderingUnitOfMeasure'' ''nvarchar'' False False False None None,
         mkColumn ''Items'' ''InventoryUnitOfMeasure'' ''nvarchar'' False False False None None,
         mkColumn ''Items'' ''CaseSize'' ''int'' False False False None None,
         mkColumn ''Inventory'' ''InventoryId'' ''int'' False True False None None,
         mkColumn ''Inventory'' ''OrderId'' ''int'' False False True (Some ''PurchaseOrders'') (Some ''OrderId''),
         mkColumn ''Inventory'' ''ActualOnHand'' ''decimal'' False False False None None,
         mkColumn ''Inventory'' ''TheoreticalOnHand'' ''decimal'' False False False None None,
         mkColumn ''Inventory'' ''PostConsumptionSuggested'' ''decimal'' False False False None None,
         mkColumn ''Inventory'' ''PostConsumptionOrdered'' ''decimal'' False False False None None,
         mkColumn ''Inventory'' ''PostConsumptionVariance'' ''decimal'' False False False None None,
         mkColumn ''Transfers'' ''TransferId'' ''int'' False True False None None,
         mkColumn ''Transfers'' ''OrderId'' ''int'' False False True (Some ''PurchaseOrders'') (Some ''OrderId''),
         mkColumn ''Transfers'' ''TransferQuantity'' ''decimal'' False False False None None,
         mkColumn ''Waste'' ''WasteId'' ''int'' False True False None None,
         mkColumn ''Waste'' ''OrderId'' ''int'' False False True (Some ''PurchaseOrders'') (Some ''OrderId''),
         mkColumn ''Waste'' ''WasteQuantity'' ''decimal'' False False False None None,
         mkColumn ''Usage'' ''UsageId'' ''int'' False True False None None,
         mkColumn ''Usage'' ''OrderId'' ''int'' False False True (Some ''PurchaseOrders'') (Some ''OrderId''),
         mkColumn ''Usage'' ''EstimatedUsage'' ''decimal'' False False False None None],
      relationships =
        [\<lparr>fromTable = ''PurchaseOrders'', fromColumn = ''LocationId'', toTable = ''Locations'', toColumn = ''LocationId''\<rparr>,
         \<lparr>fromTable = ''PurchaseOrders'', fromColumn = ''ItemId'', toTable = ''Items'', toColumn = ''ItemId''\<rparr>,
         \<lparr>fromTable = ''Inventory'', fromColumn = ''OrderId'', toTable = ''PurchaseOrders'', toColumn = ''OrderId''\<rparr>,
         \<lparr>fromTable = ''Transfers'', fromColumn = ''OrderId'', toTable = ''PurchaseOrders'', toColumn = ''OrderId''\<rparr>,
         \<lparr>fromTable = ''Waste'', fromColumn = ''OrderId'', toTable = ''PurchaseOrders'', toColumn = ''OrderId''\<rparr>,
         \<lparr>fromTable = ''Usage'', fromColumn = ''OrderId'', toTable = ''PurchaseOrders'', toColumn = ''OrderId''\<rparr>]\<rparr>"

text \<open>
  What the function can throw.  The source throws plain \<^verbatim>\<open>Error\<close> objects with the
  messages "Database name is required" and "Invalid database name: ..."; a rejected
  catalog query is \<open>QueryFailed\<close>.
\<close>

datatype error = DatabaseNameRequired | InvalidDatabaseName string | QueryFailed string

text \<open>
  The test \<^verbatim>\<open>/^[\w-]+$/i\<close>: one or more characters of \<^verbatim>\<open>[A-Za-z0-9_-]\<close> and nothing
  else.
\<close>

definition isWordOrHyphen :: "char \<Rightarrow> bool" where
  "isWordOrHyphen c =
     List.member (upperCaseLetters @ lowerCaseLetters @ decimalDigits @ ''_-'') c"

definition matchesIdentifierPattern :: "string \<Rightarrow> bool" where
  "matchesIdentifierPattern v = (v \<noteq> [] \<and> list_all isWordOrHyphen v)"

definition formatIdentifier :: "string \<Rightarrow> error + string" where
  "formatIdentifier v =
     (if v = [] then Inl DatabaseNameRequired
      else if \<not> matchesIdentifierPattern v then Inl (InvalidDatabaseName v)
      else Inr (''['' @ concat (map (\<lambda>c. if c = CHR '']'' then '']]'' else [c]) v) @ '']''))"

text \<open>
  The rows of the four catalog queries, with the columns each query selects.
  \<^verbatim>\<open>CHARACTER_MAXIMUM_LENGTH\<close> is NULL for a column that has no character length.
\<close>

record TableRow =
  TABLE_SCHEMA :: string
  TABLE_NAME :: string

record KeyRow = TableRow +
  COLUMN_NAME :: string

record ColumnRow = KeyRow +
  DATA_TYPE :: string
  IS_NULLABLE :: string
  CHARACTER_MAXIMUM_LENGTH :: "int option"

record ForeignKeyRow =
  FK_SCHEMA :: string
  FK_TABLE :: string
  FK_COLUMN :: string
  PK_SCHEMA :: string
  PK_TABLE :: string
  PK_COLUMN :: string

text \<open>
  The text of each catalog query is fixed apart from the bracketed identifier spliced
  into it, so a query is its kind and that identifier.  A connection answers each of the
  four queries with a record set or rejects it.
\<close>

datatype query =
  TablesQuery string | ColumnsQuery string | PrimaryKeysQuery string | ForeignKeysQuery string

record Db =
  tablesResult :: "string \<Rightarrow> error + TableRow list"
  columnsResult :: "string \<Rightarrow> error + ColumnRow list"
  pkResult :: "string \<Rightarrow> error + KeyRow list"
  fkResult :: "string \<Rightarrow> error + ForeignKeyRow list"

definition pkSetOf :: "KeyRow list \<Rightarrow> string set" where
  "pkSetOf rows =
     set (map (\<lambda>row. TABLE_SCHEMA row @ ''.'' @ TABLE_NAME row @ ''.'' @ COLUMN_NAME row) rows)"

definition fkMapOf :: "ForeignKeyRow list \<Rightarrow> (string \<rightharpoonup> string \<times> string)" where
  "fkMapOf rows =
     foldl (\<lambda>fkMap row.
              fkMap(FK_SCHEMA row @ ''.'' @ FK_TABLE row @ ''.'' @ FK_COLUMN row \<mapsto>
                    (PK_SCHEMA row @ ''.'' @ PK_TABLE row, PK_COLUMN row)))
       Map.empty rows"

definition relationshipOfRow :: "ForeignKeyRow \<Rightarrow> TableRelationship" where
  "relationshipOfRow row =
     \<lparr>fromTable = FK_SCHEMA row @ ''.'' @ FK_TABLE row, fromColumn = FK_COLUMN row,
      toTable = PK_SCHEMA row @ ''.'' @ PK_TABLE row, toColumn = PK_COLUMN row\<rparr>"

text \<open>
  The callback that maps a row of the columns query to a \<open>TableColumn\<close>.  The guard
  \<^verbatim>\<open>maxLength && maxLength > 0\<close> is false for NULL, for 0 and for every negative length.
\<close>

definition columnOfRow ::
  "string set \<Rightarrow> (string \<rightharpoonup> string \<times> string) \<Rightarrow> ColumnRow \<Rightarrow> TableColumn" where
  "columnOfRow pkSet fkMap row =
     (let table = TABLE_SCHEMA row @ ''.'' @ TABLE_NAME row;
          key = TABLE_SCHEMA row @ ''.'' @ TABLE_NAME row @ ''.'' @ COLUMN_NAME row;
          fkInfo = fkMap key;
          maxLength = CHARACTER_MAXIMUM_LENGTH row;
          dataTypeText =
            (case maxLength of
               None \<Rightarrow> DATA_TYPE row
             | Some n \<Rightarrow>
                 if n \<noteq> 0 \<and> 0 < n
                 then DATA_TYPE row @ ''('' @ (if n = - 1 then ''max'' else showInt n) @ '')''
                 else DATA_TYPE row)
      in \<lparr>tableName = table, columnName = COLUMN_NAME row, dataType = dataTypeText,
          isNullable = (IS_NULLABLE row = ''YES''), isPrimaryKey = (key \<in> pkSet),
          isForeignKey = (fkInfo \<noteq> None), referencedTable = map_option fst fkInfo,
          referencedColumn = map_option snd fkInfo\<rparr>)"

definition assembleSchema ::
  "TableRow list \<Rightarrow> ColumnRow list \<Rightarrow> KeyRow list \<Rightarrow> ForeignKeyRow list \<Rightarrow> DatabaseSchema" where
  "assembleSchema tableRows columnRows pkRows fkRows =
     \<lparr>tables = map (\<lambda>row. TABLE_SCHEMA row @ ''.'' @ TABLE_NAME row) tableRows,
      columns = map (columnOfRow (pkSetOf pkRows) (fkMapOf fkRows)) columnRows,
      relationships = map relationshipOfRow fkRows\<rparr>"

text \<open>
  The body of the \<^verbatim>\<open>try\<close> block: the queries it has issued, and either what it throws
  or what it returns.  \<^verbatim>\<open>Promise.all\<close> starts the four queries before it waits for any
  of them, and rejects when one of them does (here the first in the order of the array).
\<close>

definition discoverTry :: "Db option \<Rightarrow> string \<Rightarrow> query list \<times> (error + DatabaseSchema)" where
  "discoverTry dbOpt databaseName =
     (case dbOpt of
        None \<Rightarrow> ([], Inr generateMockDatabaseSchema)
      | Some db \<Rightarrow>
          (case formatIdentifier databaseName of
             Inl e \<Rightarrow> ([], Inl e)
           | Inr dbIdentifier \<Rightarrow>
               (let issued = [TablesQuery dbIdentifier, ColumnsQuery dbIdentifier,
                              PrimaryKeysQuery dbIdentifier, ForeignKeysQuery dbIdentifier]
                in case tablesResult db dbIdentifier of
                     Inl e \<Rightarrow> (issued, Inl e)
                   | Inr tableRows \<Rightarrow>
                       (case columnsResult db dbIdentifier of
                          Inl e \<Rightarrow> (issued, Inl e)
                        | Inr columnRows \<Rightarrow>
                            (case pkResult db dbIdentifier of
                               Inl e \<Rightarrow> (issued, Inl e)
                             | Inr pkRows \<Rightarrow>
                                 (case fkResult db dbIdentifier of
                                    Inl e \<Rightarrow> (issued, Inl e)
                                  | Inr fkRows \<Rightarrow>
                                      (issued,
                                       Inr (assembleSchema tableRows columnRows pkRows fkRows))))))))"

text \<open>
  The whole function, with its \<^verbatim>\<open>catch\<close> clause: the queries issued, the error the
  clause caught and logged (if any), and the outcome for the caller, which is \<open>Inl\<close>
  when the call fails and \<open>Inr\<close> when it returns a schema.
\<close>

record Discovery =
  issuedQueries :: "query list"
  caughtError :: "error option"
  outcome :: "error + DatabaseSchema"

definition discoverDatabaseSchema :: "Db option \<Rightarrow> string \<Rightarrow> Discovery" where
  "discoverDatabaseSchema dbOpt databaseName =
     (case discoverTry dbOpt databaseName of
        (issued, Inl e) \<Rightarrow>
          \<lparr>issuedQueries = issued, caughtError = Some e,
           outcome = Inr generateMockDatabaseSchema\<rparr>
      | (issued, Inr schema) \<Rightarrow>
          \<lparr>issuedQueries = issued, caughtError = None, outcome = Inr schema\<rparr>)"

section \<open>The loop of the evaluator in closed form\<close>

text \<open>
  Three functions used in the proofs only: the test that decides the branch taken for a
  field, and the entry each branch appends.
\<close>

definition isMatched :: "DatabaseSchema \<Rightarrow> string \<Rightarrow> bool" where
  "isMatched schema field =
     (case getTopColumnMatches field schema 3 of [] \<Rightarrow> False | best # _ \<Rightarrow> 35 / 100 \<le> score best)"

definition matchedEntry :: "DatabaseSchema \<Rightarrow> string \<Rightarrow> MatchedField" where
  "matchedEntry schema field =
     (let best = hd (getTopColumnMatches field schema 3)
      in \<lparr>matched_name = field, matched_column = columnLabel (column best),
          confidence = toFixed1 (score best * 100)\<rparr>)"

definition missingEntry :: "DatabaseSchema \<Rightarrow> string \<Rightarrow> MissingField" where
  "missingEntry schema field =
     \<lparr>missing_name = field,
      suggestions = map (\<lambda>m. columnLabel (column m)) (getTopColumnMatches field schema 3)\<rparr>"

section \<open>Properties of the normalizer and the matcher\<close>

lemma toLowerCaseChar_class_table:
  "list_all (\<lambda>c. toLowerCaseChar c = c) (lowerCaseLetters @ decimalDigits)"
  by code_simp

lemma toLowerCaseChar_fixes_class: "isLowerAlnum c \<Longrightarrow> toLowerCaseChar c = c"
  using toLowerCaseChar_class_table
  by (simp only: isLowerAlnum_def List.member_iff list_all_iff)

lemma toLowerCase_fixes_class: "\<forall>c \<in> set v. isLowerAlnum c \<Longrightarrow> toLowerCase v = v"
  unfolding toLowerCase_def by (induction v) (simp_all add: toLowerCaseChar_fixes_class)

text \<open>\<open>includesStr s t\<close> holds exactly when \<open>t\<close> occurs in \<open>s\<close> as a contiguous substring.\<close>

lemma startsWith_iff: "startsWith s t \<longleftrightarrow> (\<exists>q. s = t @ q)"
  by (induction s t rule: startsWith.induct) auto

lemma includesStr_iff: "includesStr s t \<longleftrightarrow> (\<exists>p q. s = p @ t @ q)"
proof (induction s)
  case Nil
  show ?case by auto
next
  case (Cons c s)
  have "(\<exists>p q. c # s = p @ t @ q) \<longleftrightarrow> (\<exists>q. c # s = t @ q) \<or> (\<exists>p q. s = p @ t @ q)"
  proof
    assume "\<exists>p q. c # s = p @ t @ q"
    then obtain p q where pq: "c # s = p @ t @ q" by blast
    show "(\<exists>q. c # s = t @ q) \<or> (\<exists>p q. s = p @ t @ q)"
    proof (cases p)
      case Nil
      with pq show ?thesis by auto
    next
      case (Cons a p')
      with pq have "s = p' @ t @ q" by simp
      then show ?thesis by blast
    qed
  next
    assume "(\<exists>q. c # s = t @ q) \<or> (\<exists>p q. s = p @ t @ q)"
    then show "\<exists>p q. c # s = p @ t @ q"
    proof
      assume "\<exists>q. c # s = t @ q"
      then obtain q where "c # s = [] @ t @ q" by auto
      then show ?thesis by blast
    next
      assume "\<exists>p q. s = p @ t @ q"
      then obtain p q where "c # s = (c # p) @ t @ q" by auto
      then show ?thesis by blast
    qed
  qed
  with Cons show ?case
    by (simp add: startsWith_iff)
qed

lemma startsWith_self: "startsWith s s"
  by (induction s) simp_all

lemma includesStr_self: "includesStr s s"
  by (cases s) (simp_all add: startsWith_self)

text \<open>
  C8.  The identifier normalizer is idempotent: normalizing an already normalized string
  leaves it unchanged.
\<close>

theorem normalizeIdentifier_idempotent:
  "normalizeIdentifier (normalizeIdentifier s) = normalizeIdentifier s"
proof -
  have "\<forall>c \<in> set (normalizeIdentifier s). isLowerAlnum c"
    by (simp add: normalizeIdentifier_def)
  then have "toLowerCase (normalizeIdentifier s) = normalizeIdentifier s"
    by (rule toLowerCase_fixes_class)
  then show ?thesis
    by (simp add: normalizeIdentifier_def)
qed

lemma scoreColumnMatch_same:
  "normalizeIdentifier (columnName c) = n \<Longrightarrow>
   scoreColumnMatch n c =
     1 + 3 / 10
       + (if includesStr n ''qty'' \<and> includesStr n ''quantity'' then 2 / 10 else 0)
       + (if includesStr n ''uom'' \<and> includesStr n ''unitofmeasure'' then 2 / 10 else 0)
       + (if includesStr n ''onhand'' then 3 / 10 else 0)
       + (if includesStr n ''revenue'' \<and> includesStr n ''amount'' then 15 / 100 else 0)
       + (if includesStr n ''customer'' then 15 / 100 else 0)
       + (if includesStr n ''sales'' then 15 / 100 else 0)"
  by (simp add: scoreColumnMatch_def Let_def includesStr_self)

text \<open>
  C3 (as the code has it).  Scoring a column against its own normalized name gives the
  base score 1 plus the containment boost 0.3, since a string contains itself, plus every
  keyword boost whose keywords occur in the name: at least 1.3, and never exactly 1.
\<close>

theorem scoreColumnMatch_own_name:
  "let n = normalizeIdentifier (columnName c)
   in scoreColumnMatch n c =
        1 + 3 / 10
          + (if includesStr n ''qty'' \<and> includesStr n ''quantity'' then 2 / 10 else 0)
          + (if includesStr n ''uom'' \<and> includesStr n ''unitofmeasure'' then 2 / 10 else 0)
          + (if includesStr n ''onhand'' then 3 / 10 else 0)
          + (if includesStr n ''revenue'' \<and> includesStr n ''amount'' then 15 / 100 else 0)
          + (if includesStr n ''customer'' then 15 / 100 else 0)
          + (if includesStr n ''sales'' then 15 / 100 else 0)
      \<and> 13 / 10 \<le> scoreColumnMatch n c"
proof -
  define n where "n = normalizeIdentifier (columnName c)"
  have eq: "scoreColumnMatch n c =
        1 + 3 / 10
          + (if includesStr n ''qty'' \<and> includesStr n ''quantity'' then 2 / 10 else 0)
          + (if includesStr n ''uom'' \<and> includesStr n ''unitofmeasure'' then 2 / 10 else 0)
          + (if includesStr n ''onhand'' then 3 / 10 else 0)
          + (if includesStr n ''revenue'' \<and> includesStr n ''amount'' then 15 / 100 else 0)
          + (if includesStr n ''customer'' then 15 / 100 else 0)
          + (if includesStr n ''sales'' then 15 / 100 else 0)"
    using n_def by (intro scoreColumnMatch_same) simp
  have "13 / 10 \<le> scoreColumnMatch n c"
    unfolding eq by (simp split: if_splits)
  with eq show ?thesis
    unfolding Let_def n_def [symmetric] by blast
qed

text \<open>
  C3 as stated fails: the column \<^verbatim>\<open>OrderId\<close> scores 1.3 against its own normalized name,
  not 1.0.
\<close>

theorem scoreColumnMatch_own_name_counterexample:
  "scoreColumnMatch
     (normalizeIdentifier
        (columnName (mkColumn ''PurchaseOrders'' ''OrderId'' ''int'' False True False None None)))
     (mkColumn ''PurchaseOrders'' ''OrderId'' ''int'' False True False None None) = 13 / 10
   \<and> (13 / 10 :: rat) \<noteq> 1"
  by code_simp

section \<open>Properties of the coverage evaluator\<close>

lemma coverageStep_closed:
  "coverageStep schema (n, ma, mi) field =
     (if isMatched schema field then (n + 1, ma @ [matchedEntry schema field], mi)
      else (n, ma, mi @ [missingEntry schema field]))"
  by (simp add: coverageStep_def isMatched_def matchedEntry_def missingEntry_def Let_def
      split: list.split)

lemma foldl_coverageStep:
  "foldl (coverageStep schema) (n, ma, mi) fs =
     (n + length (filter (isMatched schema) fs),
      ma @ map (matchedEntry schema) (filter (isMatched schema) fs),
      mi @ map (missingEntry schema) (filter (\<lambda>f. \<not> isMatched schema f) fs))"
proof (induction fs arbitrary: n ma mi)
  case Nil
  show ?case by simp
next
  case (Cons f fs)
  show ?case
    by (cases "isMatched schema f") (simp_all add: coverageStep_closed Cons.IH)
qed

lemma foldl_setAdd:
  "distinct acc \<Longrightarrow>
     distinct (foldl setAdd acc xs) \<and> set (foldl setAdd acc xs) = set acc \<union> set xs"
proof (induction xs arbitrary: acc)
  case Nil
  then show ?case by simp
next
  case (Cons x xs)
  have "distinct (setAdd acc x)" and "set (setAdd acc x) = insert x (set acc)"
    using Cons.prems by (auto simp: setAdd_def List.member_iff)
  with Cons.IH [of "setAdd acc x"] show ?case by auto
qed

lemma distinct_uniqueFields: "distinct (uniqueFields fieldNames)"
  using foldl_setAdd [of "[]"] by (simp add: uniqueFields_def arrayFromSet_def)

lemma set_uniqueFields: "set (uniqueFields fieldNames) = {f \<in> trim ` set fieldNames. f \<noteq> []}"
  using foldl_setAdd [of "[]"] by (auto simp: uniqueFields_def arrayFromSet_def)

lemma evaluateFieldCoverage_Some:
  "evaluateFieldCoverage (Some schema) fieldNames =
     (let unique = uniqueFields fieldNames; hits = filter (isMatched schema) unique
      in \<lparr>coveragePercent =
            (if unique = [] then 100
             else mathRound
                    (toDouble (toDouble (of_nat (length hits) / of_nat (length unique)) * 100))),
          matchedFields = map (matchedEntry schema) hits,
          missingFields = map (missingEntry schema) (filter (\<lambda>f. \<not> isMatched schema f) unique)\<rparr>)"
proof (cases "fieldNames = []")
  case True
  then show ?thesis
    by (simp add: evaluateFieldCoverage_def emptyReport_def uniqueFields_def arrayFromSet_def)
next
  case False
  then show ?thesis
    by (simp add: evaluateFieldCoverage_def foldl_coverageStep Let_def)
qed

lemma insort_key_map:
  "insort_key f (g x) (map g xs) = map g (insort_key (\<lambda>y. f (g y)) x xs)"
  by (induction xs) simp_all

lemma sort_key_map: "sort_key f (map g xs) = map g (sort_key (\<lambda>y. f (g y)) xs)"
  by (induction xs) (simp_all add: insort_key_map)

lemma getTopColumnMatches_columns:
  "map column (getTopColumnMatches field schema limit) =
     take limit
       (sort_key (\<lambda>c. - scoreColumnMatch (normalizeIdentifier field) c)
          (filter (\<lambda>c. 0 < scoreColumnMatch (normalizeIdentifier field) c) (columns schema)))"
  by (simp add: getTopColumnMatches_def scoredColumns_def filter_map sort_key_map take_map
      o_def Let_def)

declare bitLength.simps [simp del]





lemma toDouble_zero: "toDouble 0 = 0"
  by (simp add: toDouble_def)



lemma toFixed1_ge_35: "35 \<le> x \<Longrightarrow> 35 \<le> toFixed1 x"
  unfolding toFixed1_def by (simp add: le_divide_eq le_floor_iff)

lemma isMatched_score:
  "isMatched schema field \<Longrightarrow> 35 / 100 \<le> score (hd (getTopColumnMatches field schema 3))"
  by (auto simp: isMatched_def split: list.splits)

lemma mathRound_zero: "mathRound 0 = 0"
  by (simp add: mathRound_def floor_eq_iff)

text \<open>
  C6.  For a schema that is present, the names of the matched entries followed by the
  names of the missing entries list every unique (trimmed, non-empty) field name exactly
  once, so each such name is in exactly one of the two lists and the two lengths add up
  to the number of unique fields.
\<close>

theorem coverage_partition:
  "let r = evaluateFieldCoverage (Some schema) fieldNames;
       names = map matched_name (matchedFields r) @ map missing_name (missingFields r)
   in distinct names \<and> set names = set (uniqueFields fieldNames) \<and>
      length (matchedFields r) + length (missingFields r) = length (uniqueFields fieldNames)"
proof -
  let ?u = "uniqueFields fieldNames"
  let ?p = "isMatched schema"
  have names: "map matched_name (map (matchedEntry schema) (filter ?p ?u)) = filter ?p ?u"
    "map missing_name (map (missingEntry schema) (filter (\<lambda>f. \<not> ?p f) ?u)) = filter (\<lambda>f. \<not> ?p f) ?u"
    by (simp_all add: o_def matchedEntry_def missingEntry_def Let_def)
  have d: "distinct (filter ?p ?u @ filter (\<lambda>f. \<not> ?p f) ?u)"
    using distinct_uniqueFields [of fieldNames] by auto
  have s: "set (filter ?p ?u @ filter (\<lambda>f. \<not> ?p f) ?u) = set ?u"
    by auto
  have l: "length (filter ?p ?u) + length (filter (\<lambda>f. \<not> ?p f) ?u) = length ?u"
    by (rule sum_length_filter_compl)
  show ?thesis
    unfolding evaluateFieldCoverage_Some Let_def using d s l
    by (simp only: CoverageReport.simps names length_map) 
qed









text \<open>
  C10.  With a schema present, every matched entry of the report has a confidence of at
  least 35.
\<close>

theorem matched_confidence:
  "\<forall>m \<in> set (matchedFields (evaluateFieldCoverage (Some schema) fieldNames)). 35 \<le> confidence m"
proof
  fix m
  assume "m \<in> set (matchedFields (evaluateFieldCoverage (Some schema) fieldNames))"
  then obtain f where f: "isMatched schema f" and m: "m = matchedEntry schema f"
    by (auto simp: evaluateFieldCoverage_Some Let_def)
  have "35 \<le> score (hd (getTopColumnMatches f schema 3)) * 100"
    using isMatched_score [OF f] by simp
  then show "35 \<le> confidence m"
    unfolding m matchedEntry_def Let_def by (simp add: toFixed1_ge_35)
qed


section \<open>The field "Suggested Qty" on the mock schema\<close>

lemma norm_SuggestedQty: "normalizeIdentifier ''Suggested Qty'' = ''suggestedqty''"
  by code_simp

lemma norm_SuggestedQuantity: "normalizeIdentifier ''SuggestedQuantity'' = ''suggestedquantity''"
  by code_simp

lemma score_SuggestedQty:
  "scoreColumnMatch ''suggestedqty'' (c\<lparr>columnName := ''SuggestedQuantity''\<rparr>) = 2 / 10"
  by (simp add: scoreColumnMatch_def norm_SuggestedQuantity Let_def)

lemma scored_SuggestedQty:
  "scoredColumns ''suggestedqty'' generateMockDatabaseSchema =
     [\<lparr>column = mkColumn ''PurchaseOrders'' ''SuggestedQuantity'' ''decimal'' False False False None None, score = 1 / 5\<rparr>,
      \<lparr>column = mkColumn ''PurchaseOrders'' ''ActualOrderQuantity'' ''decimal'' True False False None None, score = 1 / 5\<rparr>,
      \<lparr>column = mkColumn ''Transfers'' ''TransferQuantity'' ''decimal'' False False False None None, score = 1 / 5\<rparr>,
      \<lparr>column = mkColumn ''Waste'' ''WasteQuantity'' ''decimal'' False False False None None, score = 1 / 5\<rparr>]"
  by code_simp

lemma top_SuggestedQty:
  "getTopColumnMatches ''Suggested Qty'' generateMockDatabaseSchema 3 =
     [\<lparr>column = mkColumn ''PurchaseOrders'' ''SuggestedQuantity'' ''decimal'' False False False None None, score = 1 / 5\<rparr>,
      \<lparr>column = mkColumn ''PurchaseOrders'' ''ActualOrderQuantity'' ''decimal'' True False False None None, score = 1 / 5\<rparr>,
      \<lparr>column = mkColumn ''Transfers'' ''TransferQuantity'' ''decimal'' False False False None None, score = 1 / 5\<rparr>]"
  by (simp add: getTopColumnMatches_def norm_SuggestedQty scored_SuggestedQty)

lemma unique_SuggestedQty: "uniqueFields [''Suggested Qty''] = [''Suggested Qty'']"
  by code_simp

lemma labels_SuggestedQty:
  "map (\<lambda>m. columnLabel (column m))
     [\<lparr>column = mkColumn ''PurchaseOrders'' ''SuggestedQuantity'' ''decimal'' False False False None None, score = 1 / 5\<rparr>,
      \<lparr>column = mkColumn ''PurchaseOrders'' ''ActualOrderQuantity'' ''decimal'' True False False None None, score = 1 / 5\<rparr>,
      \<lparr>column = mkColumn ''Transfers'' ''TransferQuantity'' ''decimal'' False False False None None, score = 1 / 5\<rparr>] =
   [''PurchaseOrders.SuggestedQuantity'', ''PurchaseOrders.ActualOrderQuantity'',
    ''Transfers.TransferQuantity'']"
  by code_simp

lemma isMatched_SuggestedQty: "\<not> isMatched generateMockDatabaseSchema ''Suggested Qty''"
  by (simp add: isMatched_def top_SuggestedQty)

lemma evaluate_SuggestedQty:
  "evaluateFieldCoverage (Some generateMockDatabaseSchema) [''Suggested Qty''] =
     \<lparr>coveragePercent = 0, matchedFields = [],
      missingFields =
        [\<lparr>missing_name = ''Suggested Qty'',
          suggestions = [''PurchaseOrders.SuggestedQuantity'',
                         ''PurchaseOrders.ActualOrderQuantity'',
                         ''Transfers.TransferQuantity'']\<rparr>]\<rparr>"
proof -
  have "missingEntry generateMockDatabaseSchema ''Suggested Qty'' =
      \<lparr>missing_name = ''Suggested Qty'',
       suggestions = [''PurchaseOrders.SuggestedQuantity'',
                      ''PurchaseOrders.ActualOrderQuantity'',
                      ''Transfers.TransferQuantity'']\<rparr>"
    by (simp only: missingEntry_def top_SuggestedQty labels_SuggestedQty)
  then show ?thesis
    unfolding evaluateFieldCoverage_Some unique_SuggestedQty Let_def
    by (simp add: isMatched_SuggestedQty mathRound_zero toDouble_zero)
qed

text \<open>
  C5 (as the code has it).  Against a column named \<^verbatim>\<open>SuggestedQuantity\<close> the field
  "Suggested Qty" scores 0.2: neither normalized name contains the other, so only the
  \<^verbatim>\<open>qty\<close>/\<^verbatim>\<open>quantity\<close> boost applies.  That is below the threshold 0.35, and on the mock
  schema the field is reported as missing, with that column as its first suggestion.
\<close>

theorem suggested_qty_missing:
  "scoreColumnMatch (normalizeIdentifier ''Suggested Qty'') (c\<lparr>columnName := ''SuggestedQuantity''\<rparr>)
     = 2 / 10 \<and>
   evaluateFieldCoverage (Some generateMockDatabaseSchema) [''Suggested Qty''] =
     \<lparr>coveragePercent = 0, matchedFields = [],
      missingFields =
        [\<lparr>missing_name = ''Suggested Qty'',
          suggestions = [''PurchaseOrders.SuggestedQuantity'',
                         ''PurchaseOrders.ActualOrderQuantity'',
                         ''Transfers.TransferQuantity'']\<rparr>]\<rparr>"
  using score_SuggestedQty [of c] evaluate_SuggestedQty
  by (simp only: norm_SuggestedQty)

text \<open>
  C5 as stated fails: the score of "Suggested Qty" against \<^verbatim>\<open>SuggestedQuantity\<close> does not
  reach the threshold, and the report for the mock schema has no matched field.
\<close>

theorem suggested_qty_counterexample:
  "\<not> MATCH_THRESHOLD \<le>
       scoreColumnMatch (normalizeIdentifier ''Suggested Qty'')
         (mkColumn ''PurchaseOrders'' ''SuggestedQuantity'' ''decimal'' False False False None None)
   \<and> matchedFields (evaluateFieldCoverage (Some generateMockDatabaseSchema) [''Suggested Qty'']) = []"
proof -
  have "mkColumn ''PurchaseOrders'' ''SuggestedQuantity'' ''decimal'' False False False None None
      = (mkColumn ''PurchaseOrders'' ''SuggestedQuantity'' ''decimal'' False False False None None)
          \<lparr>columnName := ''SuggestedQuantity''\<rparr>"
    by (simp add: mkColumn_def)
  then have "scoreColumnMatch ''suggestedqty''
      (mkColumn ''PurchaseOrders'' ''SuggestedQuantity'' ''decimal'' False False False None None) = 2 / 10"
    using score_SuggestedQty by metis
  then show ?thesis
    by (simp add: norm_SuggestedQty MATCH_THRESHOLD_def evaluate_SuggestedQty)
qed


section \<open>Suggestions for a missing field\<close>

lemma scoreColumnMatch_nonneg: "0 \<le> scoreColumnMatch f c"
  by (simp add: scoreColumnMatch_def Let_def)

lemma norm_Nonexistent: "normalizeIdentifier ''Nonexistent Field'' = ''nonexistentfield''"
  by code_simp

lemma scored_Nonexistent: "scoredColumns ''nonexistentfield'' generateMockDatabaseSchema = []"
  by code_simp

lemma top_Nonexistent: "getTopColumnMatches ''Nonexistent Field'' generateMockDatabaseSchema 3 = []"
  by (simp add: getTopColumnMatches_def norm_Nonexistent scored_Nonexistent)

lemma unique_Nonexistent: "uniqueFields [''Nonexistent Field''] = [''Nonexistent Field'']"
  by code_simp

lemma zero_scores_Nonexistent:
  "list_all (\<lambda>c. scoreColumnMatch ''nonexistentfield'' c = 0) (columns generateMockDatabaseSchema)"
proof -
  have "\<forall>c \<in> set (columns generateMockDatabaseSchema). \<not> 0 < scoreColumnMatch ''nonexistentfield'' c"
    using scored_Nonexistent by (simp add: scoredColumns_def filter_empty_conv)
  then show ?thesis
    using scoreColumnMatch_nonneg [of "''nonexistentfield''"]
    unfolding list_all_iff by (metis order.order_iff_strict)
qed

lemma length_mock_columns: "length (columns generateMockDatabaseSchema) = 33"
  by (simp add: generateMockDatabaseSchema_def)

text \<open>
  C4 (as the code has it).  For every field reported as missing, the suggestions are the
  \<^verbatim>\<open>table.column\<close> strings of the three best columns among those whose score is positive,
  by descending score, ties in schema order; there are at most three.  A column that
  scores 0 is never a candidate.
\<close>

theorem missing_suggestions:
  "\<forall>m \<in> set (missingFields (evaluateFieldCoverage (Some schema) fieldNames)).
     (let n = normalizeIdentifier (missing_name m)
      in suggestions m =
           map columnLabel
             (take 3 (sort_key (\<lambda>c. - scoreColumnMatch n c)
                        (filter (\<lambda>c. 0 < scoreColumnMatch n c) (columns schema)))))
     \<and> length (suggestions m) \<le> 3"
proof
  fix m
  assume "m \<in> set (missingFields (evaluateFieldCoverage (Some schema) fieldNames))"
  then obtain f where m: "m = missingEntry schema f"
    by (auto simp: evaluateFieldCoverage_Some Let_def)
  have "suggestions m = map columnLabel (map column (getTopColumnMatches f schema 3))"
    by (simp add: m missingEntry_def o_def)
  moreover have "missing_name m = f"
    by (simp add: m missingEntry_def)
  ultimately show "(let n = normalizeIdentifier (missing_name m)
      in suggestions m =
           map columnLabel
             (take 3 (sort_key (\<lambda>c. - scoreColumnMatch n c)
                        (filter (\<lambda>c. 0 < scoreColumnMatch n c) (columns schema)))))
     \<and> length (suggestions m) \<le> 3"
    by (simp add: getTopColumnMatches_columns Let_def)
qed

theorem missing_suggestions_witness:
  "missingFields (evaluateFieldCoverage (Some generateMockDatabaseSchema) [''Suggested Qty'']) =
     [\<lparr>missing_name = ''Suggested Qty'',
       suggestions = [''PurchaseOrders.SuggestedQuantity'',
                      ''PurchaseOrders.ActualOrderQuantity'',
                      ''Transfers.TransferQuantity'']\<rparr>]
   \<and> [''PurchaseOrders.SuggestedQuantity'', ''PurchaseOrders.ActualOrderQuantity'',
       ''Transfers.TransferQuantity''] =
       map columnLabel
         (take 3 (sort_key (\<lambda>c. - scoreColumnMatch ''suggestedqty'' c)
                    (filter (\<lambda>c. 0 < scoreColumnMatch ''suggestedqty'' c)
                       (columns generateMockDatabaseSchema))))"
  using missing_suggestions [of generateMockDatabaseSchema "[''Suggested Qty'']"]
  by (simp add: evaluate_SuggestedQty norm_SuggestedQty Let_def)

text \<open>
  C4 as stated fails: on the mock schema every one of the 33 columns scores 0 for the field
  "Nonexistent Field", and the report records no suggestion for it.
\<close>

theorem missing_suggestions_counterexample:
  "missingFields (evaluateFieldCoverage (Some generateMockDatabaseSchema) [''Nonexistent Field'']) =
     [\<lparr>missing_name = ''Nonexistent Field'', suggestions = []\<rparr>]
   \<and> length (columns generateMockDatabaseSchema) = 33
   \<and> list_all (\<lambda>c. scoreColumnMatch (normalizeIdentifier ''Nonexistent Field'') c = 0)
        (columns generateMockDatabaseSchema)"
proof -
  have "\<not> isMatched generateMockDatabaseSchema ''Nonexistent Field''"
    by (simp add: isMatched_def top_Nonexistent)
  moreover have "missingEntry generateMockDatabaseSchema ''Nonexistent Field'' =
      \<lparr>missing_name = ''Nonexistent Field'', suggestions = []\<rparr>"
    by (simp only: missingEntry_def top_Nonexistent list.map)
  ultimately have "missingFields
      (evaluateFieldCoverage (Some generateMockDatabaseSchema) [''Nonexistent Field'']) =
      [\<lparr>missing_name = ''Nonexistent Field'', suggestions = []\<rparr>]"
    unfolding evaluateFieldCoverage_Some unique_Nonexistent Let_def by simp
  then show ?thesis
    using length_mock_columns zero_scores_Nonexistent by (simp only: norm_Nonexistent)
qed


section \<open>A small schema with one matched and one missing field\<close>

lemma unique_sample:
  "uniqueFields [''Location'', '' Location '', ''zzz'', ''  ''] = [''Location'', ''zzz'']"
  by code_simp

lemma evaluate_sample:
  "evaluateFieldCoverage
     (Some \<lparr>tables = [''Sites''],
            columns = [mkColumn ''Sites'' ''Location'' ''nvarchar'' False False False None None],
            relationships = []\<rparr>)
     [''Location'', '' Location '', ''zzz'', ''  ''] =
   \<lparr>coveragePercent = 50,
    matchedFields = [\<lparr>matched_name = ''Location'', matched_column = ''Sites.Location'',
                      confidence = 130\<rparr>],
    missingFields = [\<lparr>missing_name = ''zzz'', suggestions = []\<rparr>]\<rparr>"
  by code_simp

theorem matched_confidence_witness:
  "matchedFields
     (evaluateFieldCoverage
        (Some \<lparr>tables = [''Sites''],
               columns = [mkColumn ''Sites'' ''Location'' ''nvarchar'' False False False None None],
               relationships = []\<rparr>)
        [''Location'', '' Location '', ''zzz'', ''  '']) =
     [\<lparr>matched_name = ''Location'', matched_column = ''Sites.Location'', confidence = 130\<rparr>]
   \<and> 35 \<le> confidence
        \<lparr>matched_name = ''Location'', matched_column = ''Sites.Location'', confidence = 130\<rparr>"
  using matched_confidence
    [of "\<lparr>tables = [''Sites''],
          columns = [mkColumn ''Sites'' ''Location'' ''nvarchar'' False False False None None],
          relationships = []\<rparr>" "[''Location'', '' Location '', ''zzz'', ''  '']"]
  by (simp add: evaluate_sample)


section \<open>Properties of schema discovery\<close>

lemma formatIdentifier_invalid:
  "\<not> matchesIdentifierPattern v \<Longrightarrow>
     formatIdentifier v = Inl (if v = [] then DatabaseNameRequired else InvalidDatabaseName v)"
  by (simp add: formatIdentifier_def)

lemma bad_name: "\<not> matchesIdentifierPattern ''bad;name''"
  by code_simp

text \<open>
  C1 (as the code has it).  For a database name that does not match the identifier
  pattern, discovery issues no catalog query and returns the mock schema: with a
  connection, the error thrown by \<^verbatim>\<open>formatIdentifier\<close> is caught by the \<^verbatim>\<open>catch\<close> clause of
  the function; without one, the name is not even checked.
\<close>

theorem invalid_name_absorbed:
  "\<not> matchesIdentifierPattern databaseName \<Longrightarrow>
     issuedQueries (discoverDatabaseSchema dbOpt databaseName) = [] \<and>
     outcome (discoverDatabaseSchema dbOpt databaseName) = Inr generateMockDatabaseSchema \<and>
     caughtError (discoverDatabaseSchema dbOpt databaseName) =
       (case dbOpt of
          None \<Rightarrow> None
        | Some db \<Rightarrow>
            Some (if databaseName = [] then DatabaseNameRequired
                  else InvalidDatabaseName databaseName))"
  by (cases dbOpt)
    (simp_all add: discoverDatabaseSchema_def discoverTry_def formatIdentifier_invalid)

theorem invalid_name_absorbed_witness:
  "\<not> matchesIdentifierPattern ''bad;name'' \<and>
   issuedQueries
     (discoverDatabaseSchema
        (Some \<lparr>tablesResult = \<lambda>q. Inr [], columnsResult = \<lambda>q. Inr [],
               pkResult = \<lambda>q. Inr [], fkResult = \<lambda>q. Inr []\<rparr>) ''bad;name'') = [] \<and>
   caughtError
     (discoverDatabaseSchema
        (Some \<lparr>tablesResult = \<lambda>q. Inr [], columnsResult = \<lambda>q. Inr [],
               pkResult = \<lambda>q. Inr [], fkResult = \<lambda>q. Inr []\<rparr>) ''bad;name'') =
     Some (InvalidDatabaseName ''bad;name'')"
  using bad_name
    invalid_name_absorbed [OF bad_name,
      of "Some \<lparr>tablesResult = \<lambda>q. Inr [], columnsResult = \<lambda>q. Inr [],
                 pkResult = \<lambda>q. Inr [], fkResult = \<lambda>q. Inr []\<rparr>"]
  by simp

text \<open>
  C1 as stated fails: for the name \<^verbatim>\<open>bad;name\<close> the call does not fail; its outcome is the
  mock schema, with a connection and without one.
\<close>

theorem invalid_name_counterexample:
  "\<not> matchesIdentifierPattern ''bad;name'' \<and>
   outcome
     (discoverDatabaseSchema
        (Some \<lparr>tablesResult = \<lambda>q. Inr [], columnsResult = \<lambda>q. Inr [],
               pkResult = \<lambda>q. Inr [], fkResult = \<lambda>q. Inr []\<rparr>) ''bad;name'') =
     Inr generateMockDatabaseSchema \<and>
   outcome (discoverDatabaseSchema None ''bad;name'') = Inr generateMockDatabaseSchema"
  using bad_name
  by (simp add: discoverDatabaseSchema_def discoverTry_def formatIdentifier_invalid)

lemma columnOfRow_unbounded:
  "dataType (columnOfRow pkSet fkMap (row\<lparr>CHARACTER_MAXIMUM_LENGTH := Some (- 1)\<rparr>)) = DATA_TYPE row"
  by (simp add: columnOfRow_def Let_def)

lemma columnOfRow_positive:
  "0 < n \<Longrightarrow>
     dataType (columnOfRow pkSet fkMap (row\<lparr>CHARACTER_MAXIMUM_LENGTH := Some n\<rparr>)) =
       DATA_TYPE row @ ''('' @ showInt n @ '')''"
  by (auto simp add: columnOfRow_def Let_def)

lemma good_name: "formatIdentifier ''SampleInventory'' = Inr ''[SampleInventory]''"
  by code_simp

text \<open>
  C2 (the code at the failing input).  A catalog row for an \<^verbatim>\<open>nvarchar\<close> column with
  character maximum length \<^verbatim>\<open>-1\<close> yields the data type \<^verbatim>\<open>nvarchar\<close>, not \<^verbatim>\<open>nvarchar(max)\<close>:
  the guard \<^verbatim>\<open>maxLength > 0\<close> keeps \<^verbatim>\<open>-1\<close> away from the branch that would render
  \<^verbatim>\<open>max\<close>.
\<close>

theorem unbounded_length_without_max:
  "outcome
     (discoverDatabaseSchema
        (Some \<lparr>tablesResult = \<lambda>q. Inr [\<lparr>TABLE_SCHEMA = ''dbo'', TABLE_NAME = ''Notes''\<rparr>],
               columnsResult = \<lambda>q. Inr [\<lparr>TABLE_SCHEMA = ''dbo'', TABLE_NAME = ''Notes'',
                                          COLUMN_NAME = ''Body'', DATA_TYPE = ''nvarchar'',
                                          IS_NULLABLE = ''YES'',
                                          CHARACTER_MAXIMUM_LENGTH = Some (- 1)\<rparr>],
               pkResult = \<lambda>q. Inr [], fkResult = \<lambda>q. Inr []\<rparr>)
        ''SampleInventory'') =
   Inr \<lparr>tables = [''dbo.Notes''],
        columns = [\<lparr>tableName = ''dbo.Notes'', columnName = ''Body'', dataType = ''nvarchar'',
                    isNullable = True, isPrimaryKey = False, isForeignKey = False,
                    referencedTable = None, referencedColumn = None\<rparr>],
        relationships = []\<rparr>"
  by (simp add: discoverDatabaseSchema_def discoverTry_def good_name assembleSchema_def
      columnOfRow_def pkSetOf_def fkMapOf_def Let_def)


end
